theory Spec2Isabelle
  imports Complex_Main "HOL-Library.Word"
begin

section \<open>Python values\<close>

text \<open>
  A Python \<open>str\<close> is a sequence of Unicode code points, and slicing and \<open>len\<close> count code
  points; so a \<open>str\<close> is a list of code points here. \<open>lit\<close> turns an ASCII literal of the
  source into that list. \<open>bytes\<close> is a list of octets.
\<close>

type_synonym codepoint = nat
type_synonym str = "codepoint list"
type_synonym bytes = "8 word list"

definition lit :: "string \<Rightarrow> str" where
  "lit s = map of_char s"

text \<open>\<open>str(n)\<close> for an \<open>int\<close>, as an f-string renders \<open>{response.status_code}\<close> and
  \<open>{len(response.content)}\<close>: the decimal digits, most significant first, after a minus
  sign when the number is negative.\<close>

fun str_nat :: "nat \<Rightarrow> str" where
  "str_nat n = (if n < 10 then [48 + n] else str_nat (n div 10) @ [48 + n mod 10])"

declare str_nat.simps [simp del]

definition str_int :: "int \<Rightarrow> str" where
  "str_int i = (if i < 0 then 45 # str_nat (nat (- i)) else str_nat (nat i))"

text \<open>\<open>f"{x}"\<close> for an \<open>Optional[str]\<close>: the string itself, or \<open>None\<close> spelled out.\<close>

definition format_optional :: "str option \<Rightarrow> str" where
  "format_optional x = (case x of None \<Rightarrow> lit ''None'' | Some s \<Rightarrow> s)"

text \<open>Reading a decimal numeral back, to say what "the decimal numeral of S" is.\<close>

definition is_digit :: "codepoint \<Rightarrow> bool" where
  "is_digit c = (48 \<le> c \<and> c \<le> 57)"

definition decimal_nat :: "str \<Rightarrow> nat" where
  "decimal_nat ds = foldl (\<lambda>a c. 10 * a + (c - 48)) 0 ds"

definition decimal_int :: "str \<Rightarrow> int option" where
  "decimal_int s =
     (case s of
        [] \<Rightarrow> None
      | c # ds \<Rightarrow>
          if c = 45 then
            (if ds \<noteq> [] \<and> list_all is_digit ds then Some (- int (decimal_nat ds)) else None)
          else if list_all is_digit s then Some (int (decimal_nat s))
          else None)"

section \<open>The request model\<close>

text \<open>
  \<^verbatim>\<open>class ProxyRequest(BaseModel): url: str; key: Optional[str] = "unknown"\<close>
\<close>

record ProxyRequest =
  url :: str
  key :: "str option"

text \<open>
  The endpoint's body is a JSON object, which the framework validates against the two
  declared fields before it calls the handler: \<open>url\<close> is required and must be a string
  (no constraint on its length is declared), \<open>key\<close> may be a string or null and is
  \<open>"unknown"\<close> when the body leaves it out. A value of another JSON type is refused for
  either field, which is the rule of pydantic 2; nothing below depends on that case. A
  body that fails validation is answered by the framework (status 422) and the handler
  does not run. The body is the parsed object: a map from member names to values.
\<close>

datatype json_value =
    JNull
  | JString str
  | JOther  \<comment> \<open>a number, a boolean, an array or an object\<close>

datatype validation_error = Missing str | Not_a_string str

definition ProxyRequest_validate :: "(str \<rightharpoonup> json_value) \<Rightarrow> validation_error + ProxyRequest" where
  "ProxyRequest_validate body =
     (case body (lit ''url'') of
        None \<Rightarrow> Inl (Missing (lit ''url''))
      | Some (JString u) \<Rightarrow>
          (case body (lit ''key'') of
             None \<Rightarrow> Inr \<lparr>url = u, key = Some (lit ''unknown'')\<rparr>
           | Some JNull \<Rightarrow> Inr \<lparr>url = u, key = None\<rparr>
           | Some (JString k) \<Rightarrow> Inr \<lparr>url = u, key = Some k\<rparr>
           | Some JOther \<Rightarrow> Inl (Not_a_string (lit ''key'')))
      | Some _ \<Rightarrow> Inl (Not_a_string (lit ''url'')))"

section \<open>The outbound call and its outcomes\<close>

text \<open>
  The timeout setting of an httpx client is not one number: \<open>httpx.Timeout\<close> holds four
  limits, in seconds, each of which may be absent: for getting a connection from the
  pool, for connecting, for each write of a chunk and for each read of a chunk. A client
  made with \<open>timeout=t\<close> for a number \<open>t\<close> gets \<open>httpx.Timeout(t)\<close>, which sets all four to
  \<open>t\<close>.
\<close>

record Timeout =
  connect_timeout :: "real option"
  read_timeout :: "real option"
  write_timeout :: "real option"
  pool_timeout :: "real option"

definition Timeout_init :: "real \<Rightarrow> Timeout" where
  "Timeout_init t =
     \<lparr>connect_timeout = Some t, read_timeout = Some t,
      write_timeout = Some t, pool_timeout = Some t\<rparr>"

text \<open>
  What \<open>httpx.AsyncClient(timeout=t).get(u, headers=h)\<close> asks for: a GET of \<open>u\<close> with the
  headers \<open>h\<close> and no body, under the timeout setting made from \<open>t\<close>.
\<close>

record outbound =
  http_method :: str
  url :: str
  headers :: "str \<rightharpoonup> str"
  content :: "bytes option"
  timeout :: Timeout

definition AsyncClient_get :: "real \<Rightarrow> str \<Rightarrow> (str \<rightharpoonup> str) \<Rightarrow> outbound" where
  "AsyncClient_get t u h =
     \<lparr>http_method = lit ''GET'', url = u, headers = h, content = None,
      timeout = Timeout_init t\<rparr>"

text \<open>
  How long a fetch waits, phase by phase, and when the client gives up on it: a
  \<open>TimeoutException\<close> is raised when one wait is longer than the limit of its phase.
  The time the whole fetch takes is the sum of its waits, and no limit is set on it.
\<close>

record waits =
  for_pool :: real
  for_connect :: real
  for_writes :: "real list"
  for_reads :: "real list"

definition over :: "real option \<Rightarrow> real \<Rightarrow> bool" where
  "over limit t = (case limit of None \<Rightarrow> False | Some l \<Rightarrow> l < t)"

definition times_out :: "Timeout \<Rightarrow> waits \<Rightarrow> bool" where
  "times_out T x =
     (over (pool_timeout T) (for_pool x) \<or> over (connect_timeout T) (for_connect x) \<or>
      list_ex (over (write_timeout T)) (for_writes x) \<or>
      list_ex (over (read_timeout T)) (for_reads x))"

definition elapsed :: "waits \<Rightarrow> real" where
  "elapsed x = for_pool x + for_connect x + sum_list (for_writes x) + sum_list (for_reads x)"

text \<open>
  The call returns an \<open>httpx.Response\<close> or raises. Of a response the handler reads
  \<open>status_code\<close>, \<open>content\<close> and \<open>headers.get("content-type", ...)\<close>; the header lookup of
  httpx ignores case, so the map is keyed by the lower-case header name.
\<close>

record httpx_Response =
  status_code :: int
  headers :: "str \<rightharpoonup> str"
  content :: bytes

text \<open>
  Of a raised exception the handler looks at its class, through the two \<open>except\<close> clauses,
  and at \<open>str(e)\<close>. \<open>cls\<close> is the most specific of three classes the exception is an
  instance of: \<open>httpx.TimeoutException\<close>, which is a subclass of \<open>Exception\<close>;
  \<open>Exception\<close>; and \<open>BaseException\<close> for what lies outside \<open>Exception\<close>
  (\<open>asyncio.CancelledError\<close>, \<open>KeyboardInterrupt\<close>, \<open>SystemExit\<close>).
\<close>

datatype exc_class = TimeoutException | Exception | BaseException

record exc =
  cls :: exc_class
  str_e :: str

fun isinstance :: "exc \<Rightarrow> exc_class \<Rightarrow> bool" where
  "isinstance e BaseException = True"
| "isinstance e Exception = (cls e \<noteq> BaseException)"
| "isinstance e TimeoutException = (cls e = TimeoutException)"

datatype fetched = Returned httpx_Response | Raised exc

text \<open>
  The client stands between the handler and the network. Of the checks httpx makes
  itself one is modelled, the one the empty URL meets: a URL with no scheme is refused
  with \<open>httpx.UnsupportedProtocol\<close>, which is an \<open>Exception\<close> and no timeout, and nothing
  goes to the network. Every other call is passed on to the network, which may answer
  it or fail.
\<close>

definition UnsupportedProtocol :: exc where
  "UnsupportedProtocol =
     \<lparr>cls = Exception,
      str_e = lit ''Request URL is missing an '' @ [39] @ lit ''http://'' @ [39] @
              lit '' or '' @ [39] @ lit ''https://'' @ [39] @ lit '' protocol.''\<rparr>"

definition httpx_get :: "(outbound \<Rightarrow> fetched) \<Rightarrow> outbound \<Rightarrow> fetched" where
  "httpx_get network c =
     (if outbound.url c = [] then Raised UnsupportedProtocol else network c)"

section \<open>The response and the world\<close>

text \<open>
  The response as the framework sends it: the content (\<open>bytes\<close>, or a \<open>str\<close> that goes out
  in UTF-8), the status, the content type, and the headers the handler gave.
\<close>

datatype body = Bytes bytes | Text str

record Response =
  content :: body
  status_code :: int
  media_type :: "str option"
  headers :: "str \<rightharpoonup> str"

text \<open>
  \<open>Response(content=..., status_code=..., media_type=..., headers=...)\<close> builds the
  header lines at once, and that can fail. The content type is the \<open>media_type\<close> given,
  with \<open>; charset=utf-8\<close> put after it when it starts with \<open>text/\<close> and its lower-case form
  holds no \<open>charset=\<close>; it is then encoded as Latin-1, and \<open>str.encode\<close> raises
  \<open>UnicodeEncodeError\<close> when a code point is 256 or more. \<open>status_code\<close> is 200 when the
  handler leaves it out, \<open>headers\<close> is empty when the handler leaves it out.

  \<open>lower\<close> changes the letters A to Z only. Python's \<open>str.lower\<close> changes other letters
  too, but none of them into a letter of \<open>charset=\<close>, so the test comes out the same.
  The names and values of the \<open>headers\<close> given are encoded as Latin-1 as well, and a
  \<open>str\<close> content as UTF-8, which cannot encode a lone surrogate. Neither is modelled:
  the one dictionary the handler gives is ASCII, and no text the handler builds is
  known to hold a lone surrogate.
\<close>

definition lower :: "str \<Rightarrow> str" where
  "lower s = map (\<lambda>c. if 65 \<le> c \<and> c \<le> 90 then c + 32 else c) s"

fun contains :: "str \<Rightarrow> str \<Rightarrow> bool" where
  "contains p [] = (p = [])"
| "contains p (c # cs) = (take (length p) (c # cs) = p \<or> contains p cs)"

definition with_charset :: "str \<Rightarrow> str" where
  "with_charset t =
     (if take 5 t = lit ''text/'' \<and> \<not> contains (lit ''charset='') (lower t)
      then t @ lit ''; charset=utf-8''
      else t)"

definition latin1_encodable :: "str \<Rightarrow> bool" where
  "latin1_encodable s = list_all (\<lambda>c. c < 256) s"

text \<open>
  \<open>str(e)\<close> of the \<open>UnicodeEncodeError\<close> that \<open>s.encode("latin-1")\<close> raises. The error
  covers the first code point that Latin-1 lacks and those that follow it without a
  gap. For one code point the text names it, as \<open>\u\<close> and four hexadecimal digits or
  \<open>\U\<close> and eight, and its position; for more it gives the first and the last position.
\<close>

definition hex_digit :: "nat \<Rightarrow> codepoint" where
  "hex_digit d = (if d < 10 then 48 + d else 87 + d)"

fun hex :: "nat \<Rightarrow> nat \<Rightarrow> str" where
  "hex 0 n = []"
| "hex (Suc k) n = hex k (n div 16) @ [hex_digit (n mod 16)]"

definition UnicodeEncodeError_latin1 :: "str \<Rightarrow> exc" where
  "UnicodeEncodeError_latin1 s =
     (let start = length (takeWhile (\<lambda>c. c < 256) s);
          bad = takeWhile (\<lambda>c. 256 \<le> c) (drop start s);
          codec = [39] @ lit ''latin-1'' @ [39] @ lit '' codec can'' @ [39] @ lit ''t encode '';
          reason = lit '': ordinal not in range(256)''
      in \<lparr>cls = Exception,
          str_e =
            (case bad of
               [c] \<Rightarrow>
                 codec @ lit ''character '' @ [39, 92] @
                 (if c \<le> 65535 then lit ''u'' @ hex 4 c else lit ''U'' @ hex 8 c) @ [39] @
                 lit '' in position '' @ str_nat start @ reason
             | _ \<Rightarrow>
                 codec @ lit ''characters in position '' @ str_nat start @ lit ''-'' @
                 str_nat (start + length bad - 1) @ reason)\<rparr>)"

definition Response_init ::
  "body \<Rightarrow> int option \<Rightarrow> str option \<Rightarrow> (str \<rightharpoonup> str) option \<Rightarrow> exc + Response" where
  "Response_init c s m h =
     (let status = (case s of None \<Rightarrow> 200 | Some n \<Rightarrow> n);
          given = (case h of None \<Rightarrow> Map.empty | Some d \<Rightarrow> d)
      in case m of
           None \<Rightarrow>
             Inr \<lparr>content = c, status_code = status, media_type = None, headers = given\<rparr>
         | Some t \<Rightarrow>
             if latin1_encodable (with_charset t) then
               Inr \<lparr>content = c, status_code = status,
                    media_type = Some (with_charset t), headers = given\<rparr>
             else Inl (UnicodeEncodeError_latin1 (with_charset t)))"

text \<open>
  What a call can touch outside its own variables: the log sink and the client. The
  world records both, in order: the log lines, and the calls made on the client. An
  upstream is a function from the call made to what comes back; \<open>httpx_get network\<close> is
  one.
\<close>

datatype log_level = INFO | ERROR

record world =
  logged :: "(log_level \<times> str) list"
  sent :: "outbound list"

definition logger_info :: "str \<Rightarrow> world \<Rightarrow> world" where
  "logger_info m w = w\<lparr>logged := logged w @ [(INFO, m)]\<rparr>"

definition logger_error :: "str \<Rightarrow> world \<Rightarrow> world" where
  "logger_error m w = w\<lparr>logged := logged w @ [(ERROR, m)]\<rparr>"

definition send :: "(outbound \<Rightarrow> fetched) \<Rightarrow> outbound \<Rightarrow> world \<Rightarrow> fetched \<times> world" where
  "send upstream c w = (upstream c, w\<lparr>sent := sent w @ [c]\<rparr>)"

text \<open>The two markers of the log messages: U+274C and U+2705.\<close>

definition cross_mark :: str where
  "cross_mark = [10060]"

definition check_mark :: str where
  "check_mark = [9989]"

section \<open>The handler\<close>

text \<open>
  \<open>proxy_download\<close>, statement by statement. \<open>outbound_call\<close> is the one call of the
  \<open>try\<close> block: \<open>httpx.AsyncClient(timeout=60.0)\<close> and its
  \<open>get(request.url, headers={"User-Agent": "SyftBox-Proxy/1.0"})\<close>. \<open>try_block\<close> is the
  body of the \<open>try\<close>: its result is \<open>Inr\<close> of the response it returns or \<open>Inl\<close> of the
  exception raised in it, by the call or by building a response, both of which stand
  inside the \<open>try\<close>. \<open>proxy_download\<close> passes that exception through the two \<open>except\<close>
  clauses in their order. Its result is \<open>Inr\<close> of the response the handler returns, or
  \<open>Inl\<close> of an exception that leaves the handler: one that neither clause catches, or
  one raised inside a clause.
\<close>

definition outbound_call :: "ProxyRequest \<Rightarrow> outbound" where
  "outbound_call request =
     AsyncClient_get 60 (ProxyRequest.url request)
       [lit ''User-Agent'' \<mapsto> lit ''SyftBox-Proxy/1.0'']"

definition headers_get :: "(str \<rightharpoonup> str) \<Rightarrow> str \<Rightarrow> str \<Rightarrow> str" where
  "headers_get h k d = (case h k of Some v \<Rightarrow> v | None \<Rightarrow> d)"

definition try_block ::
  "(outbound \<Rightarrow> fetched) \<Rightarrow> ProxyRequest \<Rightarrow> world \<Rightarrow> (exc + Response) \<times> world" where
  \<open>try_block upstream request w2 =
     (let (got, w3) = send upstream (outbound_call request) w2
      in case got of
           Raised e \<Rightarrow> (Inl e, w3)
         | Returned response \<Rightarrow>
             if httpx_Response.status_code response \<noteq> 200 then
               (let w4 = logger_error
                           (lit ''  '' @ cross_mark @ lit '' Error: HTTP '' @
                            str_int (httpx_Response.status_code response)) w3
                in (Response_init
                      (Text (lit ''{"error": "HTTP '' @
                             str_int (httpx_Response.status_code response) @ lit ''"}''))
                      (Some (httpx_Response.status_code response))
                      (Some (lit ''application/json''))
                      None,
                    w4))
             else
               (let w4 = logger_info
                           (lit ''  '' @ check_mark @ lit '' Success: '' @
                            str_nat (length (httpx_Response.content response)) @
                            lit '' bytes'') w3
                in (Response_init
                      (Bytes (httpx_Response.content response))
                      None
                      (Some (headers_get (httpx_Response.headers response)
                               (lit ''content-type'') (lit ''application/octet-stream'')))
                      (Some [lit ''Cache-Control'' \<mapsto> lit ''no-cache'']),
                    w4)))\<close>

definition proxy_download ::
  "(outbound \<Rightarrow> fetched) \<Rightarrow> ProxyRequest \<Rightarrow> world \<Rightarrow> (exc + Response) \<times> world" where
  \<open>proxy_download upstream request w0 =
     (let w1 = logger_info (lit ''Proxying download: '' @ format_optional (key request)) w0;
          w2 = logger_info (lit ''  URL: '' @ take 100 (ProxyRequest.url request) @ lit ''...'') w1;
          (tried, w) = try_block upstream request w2
      in case tried of
           Inr response \<Rightarrow> (Inr response, w)
         | Inl e \<Rightarrow>
             if isinstance e TimeoutException then
               (let w' = logger_error (lit ''  '' @ cross_mark @ lit '' Request timeout'') w
                in (Response_init
                      (Text (lit ''{"error": "Request timeout"}''))
                      (Some 500)
                      (Some (lit ''application/json''))
                      None,
                    w'))
             else if isinstance e Exception then
               (let w' = logger_error (lit ''  '' @ cross_mark @ lit '' Error: '' @ str_e e) w
                in (Response_init
                      (Text (lit ''{"error": "Proxy error", "message": "'' @ str_e e @ lit ''"}''))
                      (Some 500)
                      (Some (lit ''application/json''))
                      None,
                    w'))
             else (Inl e, w))\<close>

text \<open>
  The endpoint \<open>POST /proxy-download\<close>: the framework validates the body and, when it
  is valid, calls the handler.
\<close>

datatype reply =
    Unprocessable validation_error  \<comment> \<open>the framework's own answer, status 422\<close>
  | Answered Response
  | Unhandled exc

definition post_proxy_download ::
  "(outbound \<Rightarrow> fetched) \<Rightarrow> (str \<rightharpoonup> json_value) \<Rightarrow> world \<Rightarrow> reply \<times> world" where
  "post_proxy_download upstream body w =
     (case ProxyRequest_validate body of
        Inl err \<Rightarrow> (Unprocessable err, w)
      | Inr request \<Rightarrow>
          (case proxy_download upstream request w of
             (Inl e, w') \<Rightarrow> (Unhandled e, w')
           | (Inr r, w') \<Rightarrow> (Answered r, w')))"

section \<open>JSON texts\<close>

text \<open>
  Whether a \<open>str\<close> is a JSON text, by the grammar of RFC 8259: one value (an object, an
  array, a string, a number, \<open>true\<close>, \<open>false\<close> or \<open>null\<close>) with optional white space around
  it. The recogniser reads the text once, left to right, with the stack of the objects
  and arrays that are open. Inside a string a quotation mark ends the string unless a
  reverse solidus stands before it, and no control character is allowed.
\<close>

datatype json_context = In_object | In_array

datatype json_state =
    Value | Array_first | Object_first | Object_key | Colon | After
  | In_string bool | Escape bool | Hex nat bool | Literal str
  | Num_minus | Num_zero | Num_int | Num_dot | Num_frac | Num_e | Num_e_sign | Num_exp

definition is_ws :: "codepoint \<Rightarrow> bool" where
  "is_ws c = (c = 32 \<or> c = 9 \<or> c = 10 \<or> c = 13)"

definition is_hex :: "codepoint \<Rightarrow> bool" where
  "is_hex c = (is_digit c \<or> (65 \<le> c \<and> c \<le> 70) \<or> (97 \<le> c \<and> c \<le> 102))"

definition after_value :: "json_context list \<Rightarrow> codepoint \<Rightarrow> (json_state \<times> json_context list) option" where
  "after_value stack c =
     (if is_ws c then Some (After, stack)
      else if c = 44 then
        (case stack of
           [] \<Rightarrow> None
         | In_object # _ \<Rightarrow> Some (Object_key, stack)
         | In_array # _ \<Rightarrow> Some (Value, stack))
      else if c = 125 then
        (case stack of In_object # rest \<Rightarrow> Some (After, rest) | _ \<Rightarrow> None)
      else if c = 93 then
        (case stack of In_array # rest \<Rightarrow> Some (After, rest) | _ \<Rightarrow> None)
      else None)"

definition begin_value :: "json_context list \<Rightarrow> codepoint \<Rightarrow> (json_state \<times> json_context list) option" where
  "begin_value stack c =
     (if is_ws c then Some (Value, stack)
      else if c = 123 then Some (Object_first, In_object # stack)
      else if c = 91 then Some (Array_first, In_array # stack)
      else if c = 34 then Some (In_string False, stack)
      else if c = 45 then Some (Num_minus, stack)
      else if c = 48 then Some (Num_zero, stack)
      else if is_digit c then Some (Num_int, stack)
      else if c = 116 then Some (Literal (lit ''rue''), stack)
      else if c = 102 then Some (Literal (lit ''alse''), stack)
      else if c = 110 then Some (Literal (lit ''ull''), stack)
      else None)"

fun json_step :: "json_state \<times> json_context list \<Rightarrow> codepoint \<Rightarrow> (json_state \<times> json_context list) option" where
  "json_step (Value, stack) c = begin_value stack c"
| "json_step (Array_first, stack) c =
     (if is_ws c then Some (Array_first, stack)
      else if c = 93 then after_value stack c
      else begin_value stack c)"
| "json_step (Object_first, stack) c =
     (if is_ws c then Some (Object_first, stack)
      else if c = 125 then after_value stack c
      else if c = 34 then Some (In_string True, stack)
      else None)"
| "json_step (Object_key, stack) c =
     (if is_ws c then Some (Object_key, stack)
      else if c = 34 then Some (In_string True, stack)
      else None)"
| "json_step (Colon, stack) c =
     (if is_ws c then Some (Colon, stack)
      else if c = 58 then Some (Value, stack)
      else None)"
| "json_step (After, stack) c = after_value stack c"
| "json_step (In_string k, stack) c =
     (if c = 34 then Some (if k then Colon else After, stack)
      else if c = 92 then Some (Escape k, stack)
      else if c < 32 then None
      else Some (In_string k, stack))"
| "json_step (Escape k, stack) c =
     (if c \<in> set [34, 92, 47, 98, 102, 110, 114, 116] then Some (In_string k, stack)
      else if c = 117 then Some (Hex 4 k, stack)
      else None)"
| "json_step (Hex n k, stack) c =
     (if is_hex c then Some (if n \<le> 1 then In_string k else Hex (n - 1) k, stack)
      else None)"
| "json_step (Literal rest, stack) c =
     (case rest of
        [] \<Rightarrow> None
      | x # xs \<Rightarrow> if c = x then Some (if xs = [] then After else Literal xs, stack) else None)"
| "json_step (Num_minus, stack) c =
     (if c = 48 then Some (Num_zero, stack)
      else if is_digit c then Some (Num_int, stack)
      else None)"
| "json_step (Num_zero, stack) c =
     (if c = 46 then Some (Num_dot, stack)
      else if c = 101 \<or> c = 69 then Some (Num_e, stack)
      else after_value stack c)"
| "json_step (Num_int, stack) c =
     (if is_digit c then Some (Num_int, stack)
      else if c = 46 then Some (Num_dot, stack)
      else if c = 101 \<or> c = 69 then Some (Num_e, stack)
      else after_value stack c)"
| "json_step (Num_dot, stack) c = (if is_digit c then Some (Num_frac, stack) else None)"
| "json_step (Num_frac, stack) c =
     (if is_digit c then Some (Num_frac, stack)
      else if c = 101 \<or> c = 69 then Some (Num_e, stack)
      else after_value stack c)"
| "json_step (Num_e, stack) c =
     (if c = 43 \<or> c = 45 then Some (Num_e_sign, stack)
      else if is_digit c then Some (Num_exp, stack)
      else None)"
| "json_step (Num_e_sign, stack) c = (if is_digit c then Some (Num_exp, stack) else None)"
| "json_step (Num_exp, stack) c =
     (if is_digit c then Some (Num_exp, stack) else after_value stack c)"

fun json_run :: "json_state \<times> json_context list \<Rightarrow> str \<Rightarrow> (json_state \<times> json_context list) option" where
  "json_run q [] = Some q"
| "json_run q (c # cs) = (case json_step q c of None \<Rightarrow> None | Some q' \<Rightarrow> json_run q' cs)"

definition json_final :: "json_state \<Rightarrow> bool" where
  "json_final s = (s = After \<or> s = Num_zero \<or> s = Num_int \<or> s = Num_frac \<or> s = Num_exp)"

definition is_json :: "str \<Rightarrow> bool" where
  "is_json s = (case json_run (Value, []) s of
                  Some (q, []) \<Rightarrow> json_final q
                | _ \<Rightarrow> False)"

section \<open>Example inputs\<close>

definition silence :: world where
  "silence = \<lparr>logged = [], sent = []\<rparr>"

definition example_request :: ProxyRequest where
  "example_request = \<lparr>ProxyRequest.url = lit ''https://bucket.example/data.bin'', key = Some (lit ''data.bin'')\<rparr>"

section \<open>Decimal numerals\<close>

text \<open>
  \<open>str_int\<close> writes the decimal numeral of its argument: reading it back gives the
  number.
\<close>

lemma decimal_nat_snoc: "decimal_nat (ds @ [c]) = 10 * decimal_nat ds + (c - 48)"
  by (simp add: decimal_nat_def)

lemma decimal_nat_str_nat: "decimal_nat (str_nat n) = n"
proof (induction n rule: str_nat.induct)
  case (1 n)
  show ?case
  proof (cases "n < 10")
    case True
    then show ?thesis
      by (subst str_nat.simps) (simp add: decimal_nat_def)
  next
    case False
    with 1 show ?thesis
      by (subst str_nat.simps) (simp add: decimal_nat_snoc)
  qed
qed

lemma digits_str_nat: "list_all is_digit (str_nat n)"
proof (induction n rule: str_nat.induct)
  case (1 n)
  show ?case
  proof (cases "n < 10")
    case True
    then show ?thesis
      by (subst str_nat.simps) (simp add: is_digit_def)
  next
    case False
    have "n mod 10 < 10" by simp
    then have "is_digit (48 + n mod 10)"
      unfolding is_digit_def by linarith
    with 1 False show ?thesis
      by (subst str_nat.simps) simp
  qed
qed

lemma str_nat_not_Nil: "str_nat n \<noteq> []"
  by (subst str_nat.simps) simp

lemma decimal_int_str_int: "decimal_int (str_int i) = Some i"
proof (cases "i < 0")
  case True
  then show ?thesis
    by (simp add: decimal_int_def str_int_def str_nat_not_Nil digits_str_nat decimal_nat_str_nat)
next
  case False
  obtain c ds where s: "str_nat (nat i) = c # ds"
    using str_nat_not_Nil [of "nat i"] by (cases "str_nat (nat i)") auto
  have all: "list_all is_digit (c # ds)"
    using digits_str_nat [of "nat i"] s by simp
  then have "c \<noteq> 45"
    by (auto simp: is_digit_def)
  with False all show ?thesis
    using decimal_nat_str_nat [of "nat i"] s
    by (simp add: decimal_int_def str_int_def)
qed

section \<open>Building a response\<close>

text \<open>
  The two ways the handler builds a response: with the content type
  \<open>application/json\<close>, which always succeeds and is sent as it is, and with the content
  type of the upstream, which succeeds when Latin-1 can encode it. The response of a
  call follows from what the outbound call gave, case by case.
\<close>

lemma latin1_encodable_append:
  "latin1_encodable (s @ t) = (latin1_encodable s \<and> latin1_encodable t)"
  by (simp add: latin1_encodable_def)

lemma latin1_encodable_with_charset: "latin1_encodable (with_charset t) = latin1_encodable t"
  by (simp add: with_charset_def latin1_encodable_append)
    (simp add: latin1_encodable_def lit_def)

lemma with_charset_json: "with_charset (lit ''application/json'') = lit ''application/json''"
  by (simp add: with_charset_def lit_def)

lemma latin1_encodable_json: "latin1_encodable (lit ''application/json'')"
  by (simp add: latin1_encodable_def lit_def)

lemma Response_init_json:
  "Response_init c (Some n) (Some (lit ''application/json'')) None =
     Inr \<lparr>content = c, status_code = n,
          media_type = Some (lit ''application/json''), headers = Map.empty\<rparr>"
  by (simp add: Response_init_def with_charset_json latin1_encodable_json)

lemma Response_init_success:
  "Response_init c None (Some t) (Some d) =
     (if latin1_encodable t then
        Inr \<lparr>content = c, status_code = 200, media_type = Some (with_charset t), headers = d\<rparr>
      else Inl (UnicodeEncodeError_latin1 (with_charset t)))"
  by (simp add: Response_init_def latin1_encodable_with_charset)

lemma cls_UnicodeEncodeError: "cls (UnicodeEncodeError_latin1 s) = Exception"
  by (simp add: UnicodeEncodeError_latin1_def Let_def)

lemmas handler_defs = proxy_download_def try_block_def send_def Let_def
  Response_init_json Response_init_success cls_UnicodeEncodeError

lemma proxy_download_raised:
  assumes "upstream (outbound_call request) = Raised e"
  shows \<open>fst (proxy_download upstream request w) =
     (if isinstance e TimeoutException then
        Inr \<lparr>content = Text (lit ''{"error": "Request timeout"}''), status_code = 500,
             media_type = Some (lit ''application/json''), headers = Map.empty\<rparr>
      else if isinstance e Exception then
        Inr \<lparr>content = Text (lit ''{"error": "Proxy error", "message": "'' @ str_e e @ lit ''"}''),
             status_code = 500,
             media_type = Some (lit ''application/json''), headers = Map.empty\<rparr>
      else Inl e)\<close>
  using assms by (simp add: handler_defs)

lemma proxy_download_returned:
  assumes "upstream (outbound_call request) = Returned r"
  shows \<open>fst (proxy_download upstream request w) =
     (if httpx_Response.status_code r \<noteq> 200 then
        Inr \<lparr>content = Text (lit ''{"error": "HTTP '' @ str_int (httpx_Response.status_code r) @ lit ''"}''),
             status_code = httpx_Response.status_code r,
             media_type = Some (lit ''application/json''), headers = Map.empty\<rparr>
      else if latin1_encodable
                (headers_get (httpx_Response.headers r) (lit ''content-type'')
                   (lit ''application/octet-stream'')) then
        Inr \<lparr>content = Bytes (httpx_Response.content r), status_code = 200,
             media_type =
               Some (with_charset
                       (headers_get (httpx_Response.headers r) (lit ''content-type'')
                          (lit ''application/octet-stream''))),
             headers = [lit ''Cache-Control'' \<mapsto> lit ''no-cache'']\<rparr>
      else
        Inr \<lparr>content =
               Text (lit ''{"error": "Proxy error", "message": "'' @
                     str_e (UnicodeEncodeError_latin1
                              (with_charset
                                 (headers_get (httpx_Response.headers r) (lit ''content-type'')
                                    (lit ''application/octet-stream'')))) @
                     lit ''"}''),
             status_code = 500,
             media_type = Some (lit ''application/json''), headers = Map.empty\<rparr>)\<close>
  using assms by (simp add: handler_defs)

lemma outbound_call_url:
  "ProxyRequest.url a = ProxyRequest.url b \<Longrightarrow> outbound_call a = outbound_call b"
  by (simp add: outbound_call_def)

lemma response_by_outcome:
  "upstream (outbound_call a) = upstream' (outbound_call b) \<Longrightarrow>
   fst (proxy_download upstream a w) = fst (proxy_download upstream' b w')"
proof (cases "upstream' (outbound_call b)")
  case (Returned r)
  assume "upstream (outbound_call a) = upstream' (outbound_call b)"
  with Returned show ?thesis
    by (simp only: proxy_download_returned [of upstream a r w]
        proxy_download_returned [of upstream' b r w'])
next
  case (Raised e)
  assume "upstream (outbound_call a) = upstream' (outbound_call b)"
  with Raised show ?thesis
    by (simp only: proxy_download_raised [of upstream a e w]
        proxy_download_raised [of upstream' b e w'])
qed

lemma sent_try_block:
  "sent (snd (try_block upstream request w)) = sent w @ [outbound_call request]"
  by (cases "upstream (outbound_call request)")
    (simp_all add: try_block_def send_def Let_def logger_info_def logger_error_def)

lemma sent_proxy_download:
  "sent (snd (proxy_download upstream request w)) = sent w @ [outbound_call request]"
proof -
  obtain tried w' where t: "try_block upstream request
      (logger_info (lit ''  URL: '' @ take 100 (ProxyRequest.url request) @ lit ''...'')
         (logger_info (lit ''Proxying download: '' @ format_optional (key request)) w)) =
      (tried, w')"
    by (cases "try_block upstream request
      (logger_info (lit ''  URL: '' @ take 100 (ProxyRequest.url request) @ lit ''...'')
         (logger_info (lit ''Proxying download: '' @ format_optional (key request)) w))")
  have "sent w' = sent w @ [outbound_call request]"
    using sent_try_block [of upstream request
      "logger_info (lit ''  URL: '' @ take 100 (ProxyRequest.url request) @ lit ''...'')
         (logger_info (lit ''Proxying download: '' @ format_optional (key request)) w)"] t
    by (simp add: logger_info_def)
  with t show ?thesis
    by (cases tried)
      (simp_all add: proxy_download_def Let_def logger_error_def)
qed

lemma fst_post_proxy_download:
  "fst (post_proxy_download upstream body w) =
     (case ProxyRequest_validate body of
        Inl err \<Rightarrow> Unprocessable err
      | Inr request \<Rightarrow>
          (case fst (proxy_download upstream request w) of
             Inl e \<Rightarrow> Unhandled e
           | Inr r \<Rightarrow> Answered r))"
  by (simp add: post_proxy_download_def split: sum.splits prod.splits)

section \<open>Some values worked out\<close>






lemmas json_defs = is_json_def lit_def begin_value_def after_value_def is_ws_def is_digit_def
  json_final_def

section \<open>The four outcomes\<close>




text \<open>
  C2. When the upstream GET returns a status \<open>S\<close> other than 200 (201 and 301 as much as
  404), the handler returns a response with status \<open>S\<close>, content type
  \<open>application/json\<close> and the text \<open>{"error": "HTTP S"}\<close> with the decimal numeral of
  \<open>S\<close>; the upstream body plays no part in it.
\<close>

theorem non_200_mirrors_status:
  assumes \<open>upstream (outbound_call request) = Returned r\<close>
    and \<open>httpx_Response.status_code r \<noteq> 200\<close>
  shows \<open>fst (proxy_download upstream request w) =
           Inr \<lparr>content =
                  Text (lit ''{"error": "HTTP '' @ str_int (httpx_Response.status_code r) @ lit ''"}''),
                status_code = httpx_Response.status_code r,
                media_type = Some (lit ''application/json''),
                headers = Map.empty\<rparr>
         \<and> decimal_int (str_int (httpx_Response.status_code r)) = Some (httpx_Response.status_code r)
         \<and> fst (proxy_download
                  (upstream (outbound_call request := Returned (r\<lparr>httpx_Response.content := b\<rparr>)))
                  request w) =
             fst (proxy_download upstream request w)\<close>
proof -
  have changed: \<open>(upstream (outbound_call request := Returned (r\<lparr>httpx_Response.content := b\<rparr>)))
      (outbound_call request) = Returned (r\<lparr>httpx_Response.content := b\<rparr>)\<close>
    by simp
  show ?thesis
    using assms changed proxy_download_returned [of upstream request r w]
      proxy_download_returned
        [of \<open>upstream (outbound_call request := Returned (r\<lparr>httpx_Response.content := b\<rparr>))\<close>
            request \<open>r\<lparr>httpx_Response.content := b\<rparr>\<close> w]
    by (simp add: decimal_int_str_int)
qed

theorem non_200_mirrors_status_witness:
  \<open>fst (proxy_download
          (\<lambda>c. Returned \<lparr>httpx_Response.status_code = 404,
                           headers = [lit ''content-type'' \<mapsto> lit ''text/html''],
                           content = [60, 104, 49, 62]\<rparr>)
          example_request silence) =
     Inr \<lparr>content = Text (lit ''{"error": "HTTP 404"}''), status_code = 404,
          media_type = Some (lit ''application/json''), headers = Map.empty\<rparr>
   \<and> fst (proxy_download
          (\<lambda>c. Returned \<lparr>httpx_Response.status_code = 201,
                           headers = Map.empty,
                           content = [1]\<rparr>)
          example_request silence) =
     Inr \<lparr>content = Text (lit ''{"error": "HTTP 201"}''), status_code = 201,
          media_type = Some (lit ''application/json''), headers = Map.empty\<rparr>\<close>
  using non_200_mirrors_status
      [of \<open>\<lambda>c. Returned \<lparr>httpx_Response.status_code = 404,
                           headers = [lit ''content-type'' \<mapsto> lit ''text/html''],
                           content = [60, 104, 49, 62]\<rparr>\<close> example_request _ silence]
    non_200_mirrors_status
      [of \<open>\<lambda>c. Returned \<lparr>httpx_Response.status_code = 201,
                           headers = Map.empty,
                           content = [1]\<rparr>\<close> example_request _ silence]
  by (simp add: str_int_def str_nat.simps lit_def)

text \<open>
  C3. When the outbound call raises an exception that is an \<open>Exception\<close> and not a
  timeout, the handler returns a response with status 500, content type
  \<open>application/json\<close> and the text \<open>{"error": "Proxy error", "message": "d"}\<close>, where \<open>d\<close> is
  \<open>str(e)\<close> put between the two quotation marks as it is. So there is a failure
  description with a quotation mark in it for which the text the handler returns is
  not a JSON text.
\<close>

theorem other_failure_gives_proxy_error:
  assumes \<open>upstream (outbound_call request) = Raised e\<close>
    and \<open>isinstance e Exception\<close>
    and \<open>\<not> isinstance e TimeoutException\<close>
  shows \<open>fst (proxy_download upstream request w) =
           Inr \<lparr>content =
                  Text (lit ''{"error": "Proxy error", "message": "'' @ str_e e @ lit ''"}''),
                status_code = 500,
                media_type = Some (lit ''application/json''),
                headers = Map.empty\<rparr>
         \<and> (\<exists>e'. isinstance e' Exception \<and> \<not> isinstance e' TimeoutException
                \<and> 34 \<in> set (str_e e')
                \<and> fst (proxy_download (\<lambda>c. Raised e') request w) =
                    Inr \<lparr>content =
                           Text (lit ''{"error": "Proxy error", "message": "'' @ str_e e' @ lit ''"}''),
                         status_code = 500,
                         media_type = Some (lit ''application/json''),
                         headers = Map.empty\<rparr>
                \<and> \<not> is_json (lit ''{"error": "Proxy error", "message": "'' @ str_e e' @ lit ''"}''))\<close>
proof (intro conjI)
  show \<open>fst (proxy_download upstream request w) =
           Inr \<lparr>content =
                  Text (lit ''{"error": "Proxy error", "message": "'' @ str_e e @ lit ''"}''),
                status_code = 500,
                media_type = Some (lit ''application/json''),
                headers = Map.empty\<rparr>\<close>
    using assms proxy_download_raised [of upstream request e w] by simp
next
  let ?e = \<open>\<lparr>cls = Exception, str_e = lit ''Invalid URL "x"''\<rparr>\<close>
  have bad: \<open>\<not> is_json (lit ''{"error": "Proxy error", "message": "'' @ str_e ?e @ lit ''"}'')\<close>
    by (simp add: json_defs)
  have quote: \<open>34 \<in> set (str_e ?e)\<close>
    by (simp add: lit_def)
  have resp: \<open>fst (proxy_download (\<lambda>c. Raised ?e) request w) =
                    Inr \<lparr>content =
                           Text (lit ''{"error": "Proxy error", "message": "'' @ str_e ?e @ lit ''"}''),
                         status_code = 500,
                         media_type = Some (lit ''application/json''),
                         headers = Map.empty\<rparr>\<close>
    using proxy_download_raised [of \<open>\<lambda>c. Raised ?e\<close> request \<open>?e\<close> w] by simp
  have cl: \<open>isinstance ?e Exception \<and> \<not> isinstance ?e TimeoutException\<close>
    by simp
  from cl quote resp bad
  show \<open>\<exists>e'. isinstance e' Exception \<and> \<not> isinstance e' TimeoutException
                \<and> 34 \<in> set (str_e e')
                \<and> fst (proxy_download (\<lambda>c. Raised e') request w) =
                    Inr \<lparr>content =
                           Text (lit ''{"error": "Proxy error", "message": "'' @ str_e e' @ lit ''"}''),
                         status_code = 500,
                         media_type = Some (lit ''application/json''),
                         headers = Map.empty\<rparr>
                \<and> \<not> is_json (lit ''{"error": "Proxy error", "message": "'' @ str_e e' @ lit ''"}'')\<close>
    by (intro exI [of _ ?e]) blast
qed

theorem other_failure_gives_proxy_error_witness:
  \<open>fst (proxy_download
          (\<lambda>c. Raised \<lparr>cls = Exception, str_e = lit ''All connection attempts failed''\<rparr>)
          example_request silence) =
     Inr \<lparr>content =
            Text (lit ''{"error": "Proxy error", "message": "All connection attempts failed"}''),
          status_code = 500,
          media_type = Some (lit ''application/json''),
          headers = Map.empty\<rparr>
   \<and> is_json (lit ''{"error": "Proxy error", "message": "All connection attempts failed"}'')
   \<and> \<not> is_json (lit ''{"error": "Proxy error", "message": "Invalid URL "x""}'')\<close>
proof -
  have a: \<open>is_json (lit ''{"error": "Proxy error", "message": "All connection attempts failed"}'')\<close>
    by (simp add: json_defs)
  have b: \<open>\<not> is_json (lit ''{"error": "Proxy error", "message": "Invalid URL "x""}'')\<close>
    by (simp add: json_defs)
  show ?thesis
    using other_failure_gives_proxy_error
        [of \<open>\<lambda>c. Raised \<lparr>cls = Exception, str_e = lit ''All connection attempts failed''\<rparr>\<close>
            example_request _ silence] a b
    by (simp add: lit_def)
qed

text \<open>
  C4. When the outbound call raises \<open>httpx.TimeoutException\<close>, the handler returns a
  response with status 500, content type \<open>application/json\<close> and the text
  \<open>{"error": "Request timeout"}\<close>; whatever the description \<open>d\<close>, that is not the response
  of the general failure branch.
\<close>

theorem timeout_gives_request_timeout:
  assumes \<open>upstream (outbound_call request) = Raised e\<close>
    and \<open>isinstance e TimeoutException\<close>
  shows \<open>fst (proxy_download upstream request w) =
           Inr \<lparr>content = Text (lit ''{"error": "Request timeout"}''),
                status_code = 500,
                media_type = Some (lit ''application/json''),
                headers = Map.empty\<rparr>
         \<and> (\<forall>d. fst (proxy_download upstream request w) \<noteq>
                  Inr \<lparr>content =
                         Text (lit ''{"error": "Proxy error", "message": "'' @ d @ lit ''"}''),
                       status_code = 500,
                       media_type = Some (lit ''application/json''),
                       headers = Map.empty\<rparr>)\<close>
  using assms proxy_download_raised [of upstream request e w] by (simp add: lit_def)

theorem timeout_gives_request_timeout_witness:
  \<open>fst (proxy_download
          (\<lambda>c. Raised \<lparr>cls = TimeoutException, str_e = lit ''''\<rparr>)
          example_request silence) =
     Inr \<lparr>content = Text (lit ''{"error": "Request timeout"}''),
          status_code = 500,
          media_type = Some (lit ''application/json''),
          headers = Map.empty\<rparr>\<close>
  using timeout_gives_request_timeout
      [of \<open>\<lambda>c. Raised \<lparr>cls = TimeoutException, str_e = lit ''''\<rparr>\<close> example_request _ silence]
  by simp

text \<open>
  C5, as amended. Whatever the outbound call gives, the handler does one of six
  things, and five of them are a response. A returned status other than 200 is
  mirrored. A returned 200 is relayed, or answered with status 500 when its content
  type cannot be sent. A timeout is answered with status 500 and
  \<open>Request timeout\<close>. Any other exception under \<open>Exception\<close> is answered with status 500
  and \<open>Proxy error\<close>. An exception outside \<open>Exception\<close> (the cancellation of the task,
  \<open>KeyboardInterrupt\<close>, \<open>SystemExit\<close>) is not caught: it leaves the handler and there is
  no response.
\<close>

theorem every_outcome_but_an_exception_outside_Exception_is_answered:
  \<open>(\<forall>r. upstream (outbound_call request) = Returned r
          \<and> httpx_Response.status_code r \<noteq> 200 \<longrightarrow>
        fst (proxy_download upstream request w) =
          Inr \<lparr>content =
                 Text (lit ''{"error": "HTTP '' @ str_int (httpx_Response.status_code r) @ lit ''"}''),
               status_code = httpx_Response.status_code r,
               media_type = Some (lit ''application/json''),
               headers = Map.empty\<rparr>)
   \<and> (\<forall>r. upstream (outbound_call request) = Returned r
          \<and> httpx_Response.status_code r = 200
          \<and> latin1_encodable
                (headers_get (httpx_Response.headers r) (lit ''content-type'')
                   (lit ''application/octet-stream'')) \<longrightarrow>
        fst (proxy_download upstream request w) =
          Inr \<lparr>content = Bytes (httpx_Response.content r),
               status_code = 200,
               media_type =
                 Some (with_charset
                         (headers_get (httpx_Response.headers r) (lit ''content-type'')
                            (lit ''application/octet-stream''))),
               headers = [lit ''Cache-Control'' \<mapsto> lit ''no-cache'']\<rparr>)
   \<and> (\<forall>r. upstream (outbound_call request) = Returned r
          \<and> httpx_Response.status_code r = 200
          \<and> \<not> latin1_encodable
                (headers_get (httpx_Response.headers r) (lit ''content-type'')
                   (lit ''application/octet-stream'')) \<longrightarrow>
        fst (proxy_download upstream request w) =
          Inr \<lparr>content =
                 Text (lit ''{"error": "Proxy error", "message": "'' @
                       str_e (UnicodeEncodeError_latin1
                                (with_charset
                                   (headers_get (httpx_Response.headers r) (lit ''content-type'')
                                      (lit ''application/octet-stream'')))) @
                       lit ''"}''),
               status_code = 500,
               media_type = Some (lit ''application/json''),
               headers = Map.empty\<rparr>)
   \<and> (\<forall>e. upstream (outbound_call request) = Raised e
          \<and> isinstance e TimeoutException \<longrightarrow>
        fst (proxy_download upstream request w) =
          Inr \<lparr>content = Text (lit ''{"error": "Request timeout"}''),
               status_code = 500,
               media_type = Some (lit ''application/json''),
               headers = Map.empty\<rparr>)
   \<and> (\<forall>e. upstream (outbound_call request) = Raised e
          \<and> isinstance e Exception \<and> \<not> isinstance e TimeoutException \<longrightarrow>
        fst (proxy_download upstream request w) =
          Inr \<lparr>content =
                 Text (lit ''{"error": "Proxy error", "message": "'' @ str_e e @ lit ''"}''),
               status_code = 500,
               media_type = Some (lit ''application/json''),
               headers = Map.empty\<rparr>)
   \<and> (\<forall>e. upstream (outbound_call request) = Raised e
          \<and> \<not> isinstance e Exception \<longrightarrow>
        fst (proxy_download upstream request w) = Inl e)\<close>
proof (cases \<open>upstream (outbound_call request)\<close>)
  case (Returned r)
  then show ?thesis
    using proxy_download_returned [of upstream request r w] by simp
next
  case (Raised e)
  then show ?thesis
    using proxy_download_raised [of upstream request e w] by auto
qed

theorem every_outcome_but_an_exception_outside_Exception_is_answered_witness:
  \<open>fst (proxy_download
          (\<lambda>c. Raised \<lparr>cls = Exception, str_e = lit ''Name or service not known''\<rparr>)
          example_request silence) =
     Inr \<lparr>content =
            Text (lit ''{"error": "Proxy error", "message": "'' @
                  lit ''Name or service not known'' @ lit ''"}''),
          status_code = 500,
          media_type = Some (lit ''application/json''),
          headers = Map.empty\<rparr>
   \<and> fst (proxy_download
          (\<lambda>c. Raised \<lparr>cls = TimeoutException, str_e = []\<rparr>)
          example_request silence) =
     Inr \<lparr>content = Text (lit ''{"error": "Request timeout"}''),
          status_code = 500,
          media_type = Some (lit ''application/json''),
          headers = Map.empty\<rparr>
   \<and> fst (proxy_download
          (\<lambda>c. Returned \<lparr>httpx_Response.status_code = 503,
                           headers = Map.empty, content = []\<rparr>)
          example_request silence) =
     Inr \<lparr>content = Text (lit ''{"error": "HTTP '' @ str_int 503 @ lit ''"}''),
          status_code = 503,
          media_type = Some (lit ''application/json''),
          headers = Map.empty\<rparr>
   \<and> fst (proxy_download
          (\<lambda>c. Raised \<lparr>cls = BaseException, str_e = lit ''cancelled''\<rparr>)
          example_request silence) =
     Inl \<lparr>cls = BaseException, str_e = lit ''cancelled''\<rparr>\<close>
  using every_outcome_but_an_exception_outside_Exception_is_answered
      [of \<open>\<lambda>c. Raised \<lparr>cls = Exception, str_e = lit ''Name or service not known''\<rparr>\<close>
          example_request silence]
    every_outcome_but_an_exception_outside_Exception_is_answered
      [of \<open>\<lambda>c. Raised \<lparr>cls = TimeoutException, str_e = []\<rparr>\<close> example_request silence]
    every_outcome_but_an_exception_outside_Exception_is_answered
      [of \<open>\<lambda>c. Returned \<lparr>httpx_Response.status_code = 503,
                           headers = Map.empty, content = []\<rparr>\<close> example_request silence]
    every_outcome_but_an_exception_outside_Exception_is_answered
      [of \<open>\<lambda>c. Raised \<lparr>cls = BaseException, str_e = lit ''cancelled''\<rparr>\<close>
          example_request silence]
  by simp

text \<open>
  The claim as it stands fails for an exception outside \<open>Exception\<close>, which
  \<open>except Exception\<close> does not catch.
\<close>

theorem an_exception_outside_Exception_leaves_the_handler:
  \<open>fst (proxy_download
          (\<lambda>c. Raised \<lparr>cls = BaseException, str_e = []\<rparr>)
          example_request silence) =
     Inl \<lparr>cls = BaseException, str_e = []\<rparr>\<close>
  using proxy_download_raised
      [of \<open>\<lambda>c. Raised \<lparr>cls = BaseException, str_e = []\<rparr>\<close> example_request
          \<open>\<lparr>cls = BaseException, str_e = []\<rparr>\<close> silence]
  by simp

section \<open>What a call sends and what its response depends on\<close>

text \<open>
  C6. The \<open>key\<close> of the request reaches the log only. Two requests that differ in
  \<open>key\<close> alone get the same response from the same upstream and send the same outbound
  call; and a body that gives \<open>key\<close> as any string gets the same reply from the endpoint
  as the body that leaves \<open>key\<close> out.
\<close>

theorem key_reaches_only_the_log:
  "fst (proxy_download upstream (request\<lparr>key := k\<rparr>) w) =
     fst (proxy_download upstream (request\<lparr>key := k'\<rparr>) w')
   \<and> sent (snd (proxy_download upstream (request\<lparr>key := k\<rparr>) w)) =
     sent (snd (proxy_download upstream (request\<lparr>key := k'\<rparr>) w))
   \<and> fst (post_proxy_download upstream (body (lit ''key'' \<mapsto> JString s)) w) =
     fst (post_proxy_download upstream (body (lit ''key'' := None)) w')"
proof (intro conjI)
  have same: "outbound_call (request\<lparr>key := k\<rparr>) = outbound_call (request\<lparr>key := k'\<rparr>)"
    by (rule outbound_call_url) simp
  then show "fst (proxy_download upstream (request\<lparr>key := k\<rparr>) w) =
      fst (proxy_download upstream (request\<lparr>key := k'\<rparr>) w')"
    by (intro response_by_outcome) simp
  from same show "sent (snd (proxy_download upstream (request\<lparr>key := k\<rparr>) w)) =
      sent (snd (proxy_download upstream (request\<lparr>key := k'\<rparr>) w))"
    by (simp add: sent_proxy_download)
  have names: "lit ''url'' \<noteq> lit ''key''"
    by (simp add: lit_def)
  show "fst (post_proxy_download upstream (body (lit ''key'' \<mapsto> JString s)) w) =
      fst (post_proxy_download upstream (body (lit ''key'' := None)) w')"
  proof (cases "body (lit ''url'')")
    case None
    with names show ?thesis
      by (simp add: fst_post_proxy_download ProxyRequest_validate_def)
  next
    case (Some v)
    show ?thesis
    proof (cases v)
      case (JString u)
      have "fst (proxy_download upstream \<lparr>ProxyRequest.url = u, key = Some s\<rparr> w) =
          fst (proxy_download upstream \<lparr>ProxyRequest.url = u, key = Some (lit ''unknown'')\<rparr> w')"
        by (intro response_by_outcome) (simp add: outbound_call_def)
      with Some JString names show ?thesis
        by (simp add: fst_post_proxy_download ProxyRequest_validate_def)
    qed (use Some names in \<open>simp_all add: fst_post_proxy_download ProxyRequest_validate_def\<close>)
  qed
qed

theorem key_reaches_only_the_log_witness:
  "fst (post_proxy_download
          (\<lambda>c. Returned \<lparr>httpx_Response.status_code = 200, headers = Map.empty, content = [7]\<rparr>)
          [lit ''url'' \<mapsto> JString (lit ''https://bucket.example/a''),
           lit ''key'' \<mapsto> JString (lit ''a'')]
          silence) =
     Answered \<lparr>content = Bytes [7], status_code = 200,
               media_type = Some (lit ''application/octet-stream''),
               headers = [lit ''Cache-Control'' \<mapsto> lit ''no-cache'']\<rparr>
   \<and> fst (post_proxy_download
          (\<lambda>c. Returned \<lparr>httpx_Response.status_code = 200, headers = Map.empty, content = [7]\<rparr>)
          [lit ''url'' \<mapsto> JString (lit ''https://bucket.example/a'')]
          silence) =
     Answered \<lparr>content = Bytes [7], status_code = 200,
               media_type = Some (lit ''application/octet-stream''),
               headers = [lit ''Cache-Control'' \<mapsto> lit ''no-cache'']\<rparr>"
proof -
  have omitted:
    "fst (post_proxy_download
          (\<lambda>c. Returned \<lparr>httpx_Response.status_code = 200, headers = Map.empty, content = [7]\<rparr>)
          [lit ''url'' \<mapsto> JString (lit ''https://bucket.example/a'')]
          silence) =
     Answered \<lparr>content = Bytes [7], status_code = 200,
               media_type = Some (lit ''application/octet-stream''),
               headers = [lit ''Cache-Control'' \<mapsto> lit ''no-cache'']\<rparr>"
    using proxy_download_returned
        [of "\<lambda>c. Returned \<lparr>httpx_Response.status_code = 200, headers = Map.empty, content = [7]\<rparr>"
            "\<lparr>ProxyRequest.url = lit ''https://bucket.example/a'', key = Some (lit ''unknown'')\<rparr>"
            "\<lparr>httpx_Response.status_code = 200, headers = Map.empty, content = [7]\<rparr>" silence]
    by (simp add: fst_post_proxy_download ProxyRequest_validate_def headers_get_def
        with_charset_def latin1_encodable_def lit_def)
  have upd: "[lit ''url'' \<mapsto> JString (lit ''https://bucket.example/a'')] (lit ''key'' := None) =
      [lit ''url'' \<mapsto> JString (lit ''https://bucket.example/a'')]"
    by (simp add: lit_def)
  from key_reaches_only_the_log
      [where upstream =
          "\<lambda>c. Returned \<lparr>httpx_Response.status_code = 200, headers = Map.empty, content = [7]\<rparr>"
        and body = "[lit ''url'' \<mapsto> JString (lit ''https://bucket.example/a'')]"
        and s = "lit ''a''" and w = silence and w' = silence]
  have "fst (post_proxy_download
          (\<lambda>c. Returned \<lparr>httpx_Response.status_code = 200, headers = Map.empty, content = [7]\<rparr>)
          [lit ''url'' \<mapsto> JString (lit ''https://bucket.example/a''),
           lit ''key'' \<mapsto> JString (lit ''a'')]
          silence) =
        fst (post_proxy_download
          (\<lambda>c. Returned \<lparr>httpx_Response.status_code = 200, headers = Map.empty, content = [7]\<rparr>)
          [lit ''url'' \<mapsto> JString (lit ''https://bucket.example/a'')]
          silence)"
    unfolding upd by blast
  with omitted show ?thesis
    by simp
qed

text \<open>
  C7, as amended. Every call of the handler makes exactly one outbound request,
  whatever comes back: a GET of \<open>request.url\<close> as it is, with the one header
  \<open>User-Agent: SyftBox-Proxy/1.0\<close>, no body, on a client whose timeout setting is 60
  seconds for each of its four limits: getting a connection from the pool, connecting,
  each write and each read. The list of calls grows by that one entry and no other.
\<close>

theorem exactly_one_get_per_call:
  "sent (snd (proxy_download upstream request w)) =
     sent w @
     [\<lparr>http_method = lit ''GET'',
       url = ProxyRequest.url request,
       headers = [lit ''User-Agent'' \<mapsto> lit ''SyftBox-Proxy/1.0''],
       content = None,
       timeout =
         \<lparr>connect_timeout = Some 60, read_timeout = Some 60,
          write_timeout = Some 60, pool_timeout = Some 60\<rparr>\<rparr>]"
  by (simp add: sent_proxy_download outbound_call_def AsyncClient_get_def Timeout_init_def)

theorem exactly_one_get_per_call_witness:
  "sent (snd (proxy_download
               (\<lambda>c. Raised \<lparr>cls = TimeoutException, str_e = []\<rparr>) example_request silence)) =
     [\<lparr>http_method = lit ''GET'',
       url = lit ''https://bucket.example/data.bin'',
       headers = [lit ''User-Agent'' \<mapsto> lit ''SyftBox-Proxy/1.0''],
       content = None,
       timeout =
         \<lparr>connect_timeout = Some 60, read_timeout = Some 60,
          write_timeout = Some 60, pool_timeout = Some 60\<rparr>\<rparr>]"
  using exactly_one_get_per_call
      [of "\<lambda>c. Raised \<lparr>cls = TimeoutException, str_e = []\<rparr>" example_request silence]
  by (simp add: example_request_def silence_def)

text \<open>
  The claim as it stands speaks of a total timeout of 60 seconds, and the setting is
  none: a fetch that connects in one second and waits 45 seconds for each of two reads
  stays within every limit and takes 91 seconds.
\<close>

theorem sixty_seconds_bound_each_wait_not_the_whole_fetch:
  "timeout (outbound_call example_request) =
     \<lparr>connect_timeout = Some 60, read_timeout = Some 60,
      write_timeout = Some 60, pool_timeout = Some 60\<rparr>
   \<and> \<not> times_out (timeout (outbound_call example_request))
         \<lparr>for_pool = 0, for_connect = 1, for_writes = [], for_reads = [45, 45]\<rparr>
   \<and> elapsed \<lparr>for_pool = 0, for_connect = 1, for_writes = [], for_reads = [45, 45]\<rparr> = 91
   \<and> (60::real) < 91"
  by (simp add: outbound_call_def AsyncClient_get_def Timeout_init_def times_out_def over_def
      elapsed_def)

text \<open>
  C8. The response does not depend on the world the call starts in. The same request
  sent twice against the same upstream gets the same response twice, the second call
  running in the world the first one left; and the second call sends its own outbound
  request, so nothing was cached.
\<close>

theorem repeated_call_repeats_response:
  "fst (proxy_download upstream request (snd (proxy_download upstream request w))) =
     fst (proxy_download upstream request w)
   \<and> fst (proxy_download upstream request w') = fst (proxy_download upstream request w)
   \<and> sent (snd (proxy_download upstream request (snd (proxy_download upstream request w)))) =
     sent w @ [outbound_call request, outbound_call request]"
  by (simp add: sent_proxy_download response_by_outcome [of upstream request upstream request])

theorem repeated_call_repeats_response_witness:
  "fst (proxy_download
          (\<lambda>c. Returned \<lparr>httpx_Response.status_code = 200, headers = Map.empty, content = [7]\<rparr>)
          example_request
          (snd (proxy_download
                  (\<lambda>c. Returned \<lparr>httpx_Response.status_code = 200, headers = Map.empty, content = [7]\<rparr>)
                  example_request silence))) =
     fst (proxy_download
          (\<lambda>c. Returned \<lparr>httpx_Response.status_code = 200, headers = Map.empty, content = [7]\<rparr>)
          example_request silence)"
  using repeated_call_repeats_response
      [of "\<lambda>c. Returned \<lparr>httpx_Response.status_code = 200, headers = Map.empty, content = [7]\<rparr>"
          example_request silence silence]
  by blast

text \<open>
  C9. A body whose \<open>url\<close> is the empty string (and whose \<open>key\<close> is absent, null or a
  string) passes validation, as a request with the empty \<open>url\<close>. The handler runs, the
  client refuses the empty URL with \<open>httpx.UnsupportedProtocol\<close> whatever the network
  would have answered, and the caller gets the handler's own status 500 response with
  the \<open>Proxy error\<close> text, not the framework's validation answer.
\<close>

theorem empty_url_passes_validation_and_fails_in_the_handler:
  assumes \<open>body (lit ''url'') = Some (JString [])\<close>
    and \<open>body (lit ''key'') \<noteq> Some JOther\<close>
  shows \<open>(\<exists>request. ProxyRequest_validate body = Inr request \<and> ProxyRequest.url request = [])
         \<and> fst (post_proxy_download (httpx_get network) body w) =
             Answered \<lparr>content =
                         Text (lit ''{"error": "Proxy error", "message": "'' @
                               str_e UnsupportedProtocol @ lit ''"}''),
                       status_code = 500,
                       media_type = Some (lit ''application/json''),
                       headers = Map.empty\<rparr>\<close>
proof -
  obtain request where v: \<open>ProxyRequest_validate body = Inr request\<close>
    and u: \<open>ProxyRequest.url request = []\<close>
    using assms
    by (cases \<open>body (lit ''key'')\<close>; cases \<open>the (body (lit ''key''))\<close>)
      (auto simp: ProxyRequest_validate_def)
  from u have \<open>httpx_get network (outbound_call request) = Raised UnsupportedProtocol\<close>
    by (simp add: httpx_get_def outbound_call_def AsyncClient_get_def)
  then have \<open>fst (proxy_download (httpx_get network) request w) =
      Inr \<lparr>content =
             Text (lit ''{"error": "Proxy error", "message": "'' @
                   str_e UnsupportedProtocol @ lit ''"}''),
           status_code = 500,
           media_type = Some (lit ''application/json''),
           headers = Map.empty\<rparr>\<close>
    using proxy_download_raised [of \<open>httpx_get network\<close> request UnsupportedProtocol w]
    by (simp add: UnsupportedProtocol_def)
  with v u show ?thesis
    by (simp add: fst_post_proxy_download)
qed

theorem empty_url_passes_validation_and_fails_in_the_handler_witness:
  \<open>ProxyRequest_validate [lit ''url'' \<mapsto> JString []] =
     Inr \<lparr>ProxyRequest.url = [], key = Some (lit ''unknown'')\<rparr>
   \<and> fst (post_proxy_download
          (httpx_get (\<lambda>c. Returned \<lparr>httpx_Response.status_code = 200,
                                      headers = Map.empty, content = [1]\<rparr>))
          [lit ''url'' \<mapsto> JString []] silence) =
     Answered \<lparr>content =
                 Text (lit ''{"error": "Proxy error", "message": "'' @
                       lit ''Request URL is missing an '' @ [39] @ lit ''http://'' @ [39] @
                       lit '' or '' @ [39] @ lit ''https://'' @ [39] @ lit '' protocol.'' @
                       lit ''"}''),
               status_code = 500,
               media_type = Some (lit ''application/json''),
               headers = Map.empty\<rparr>\<close>
proof -
  have v: \<open>ProxyRequest_validate [lit ''url'' \<mapsto> JString []] =
     Inr \<lparr>ProxyRequest.url = [], key = Some (lit ''unknown'')\<rparr>\<close>
    by (simp add: ProxyRequest_validate_def lit_def)
  have k: \<open>[lit ''url'' \<mapsto> JString []] (lit ''key'') \<noteq> Some JOther\<close>
    by (simp add: lit_def)
  have u: \<open>[lit ''url'' \<mapsto> JString []] (lit ''url'') = Some (JString [])\<close>
    by simp
  have msg: \<open>str_e UnsupportedProtocol =
      lit ''Request URL is missing an '' @ [39] @ lit ''http://'' @ [39] @
      lit '' or '' @ [39] @ lit ''https://'' @ [39] @ lit '' protocol.''\<close>
    by (simp add: UnsupportedProtocol_def)
  have \<open>fst (post_proxy_download
          (httpx_get (\<lambda>c. Returned \<lparr>httpx_Response.status_code = 200,
                                      headers = Map.empty, content = [1]\<rparr>))
          [lit ''url'' \<mapsto> JString []] silence) =
     Answered \<lparr>content =
                 Text (lit ''{"error": "Proxy error", "message": "'' @
                       str_e UnsupportedProtocol @ lit ''"}''),
               status_code = 500,
               media_type = Some (lit ''application/json''),
               headers = Map.empty\<rparr>\<close>
    using empty_url_passes_validation_and_fails_in_the_handler
        [OF u k, of \<open>\<lambda>c. Returned \<lparr>httpx_Response.status_code = 200,
                                      headers = Map.empty, content = [1]\<rparr>\<close> silence]
    by (rule conjunct2)
  with v show ?thesis
    unfolding msg by simp
qed



end
